theory Spec2Isabelle
  imports Complex_Main "HOL-Library.AList"
begin

section \<open>Data model of main.py\<close>

text \<open>
  A Python dict with string keys is an association list in insertion order
  (\<open>map_of\<close> looks a key up, \<open>AList.update\<close> stores a value and keeps the position of
  an existing key). Python's unbounded integers are \<open>int\<close>.

  Exceptions are values. \<open>KeyError k\<close> is the exception of a subscript with an absent
  key \<open>k\<close>; \<open>Exception m\<close> is any other exception of class \<open>Exception\<close>, with \<open>m\<close> its
  message. \<open>str\<close> gives the text that \<open>str(e)\<close> produces; for a \<open>KeyError\<close> this is
  \<open>repr\<close> of the key.

  \<open>repr\<close> of a string: the quote is the apostrophe, or the double quote when the string
  holds an apostrophe and no double quote; the quote and the backslash are escaped
  with a backslash, tab, newline and carriage return become a backslash and the
  letter t, n or r, and the other control characters and DEL become a backslash, the
  letter x and two lower-case hex digits. A character beyond ASCII is taken to be
  printable and is copied.
\<close>

datatype exn = KeyError string | Exception string

definition hex_digit :: "nat \<Rightarrow> char" where
  "hex_digit n = ''0123456789abcdef'' ! (n mod 16)"

definition repr_char :: "char \<Rightarrow> char \<Rightarrow> string" where
  "repr_char quote ch =
     (if ch = quote \<or> ch = CHR 0x5C then [CHR 0x5C, ch]
      else if ch = CHR 0x09 then [CHR 0x5C, CHR ''t'']
      else if ch = CHR 0x0A then [CHR 0x5C, CHR ''n'']
      else if ch = CHR 0x0D then [CHR 0x5C, CHR ''r'']
      else if (of_char ch :: nat) < 32 \<or> ch = CHR 0x7F then
        [CHR 0x5C, CHR ''x'', hex_digit ((of_char ch :: nat) div 16),
         hex_digit ((of_char ch :: nat) mod 16)]
      else [ch])"

definition repr :: "string \<Rightarrow> string" where
  "repr s =
     (let quote = (if CHR 0x27 \<in> set s \<and> CHR 0x22 \<notin> set s then CHR 0x22 else CHR 0x27)
      in [quote] @ concat (map (repr_char quote) s) @ [quote])"

fun str :: "exn \<Rightarrow> string" where
  "str (KeyError k) = repr k"
| "str (Exception m) = m"

type_synonym 'v dict = "(string \<times> 'v) list"

text \<open>\<open>d[k] += 1\<close>: a KeyError when the key is absent.\<close>

definition dict_incr :: "int dict \<Rightarrow> string \<Rightarrow> exn + int dict" where
  "dict_incr d k =
     (case map_of d k of
        None \<Rightarrow> Inl (KeyError k)
      | Some c \<Rightarrow> Inr (AList.update k (c + 1) d))"

section \<open>The sentiment classifier\<close>

text \<open>
  \<open>analyzer.polarity_scores(comentario)['compound']\<close> is the external scorer; it is the
  parameter \<open>compound\<close>. A score is a finite Python float, read as the real number it
  denotes: the order of finite floats is the order of the reals, and no float lies
  strictly between \<open>1/20\<close> and the float the literal \<open>0.05\<close> denotes, so the two
  comparisons of the source agree with the comparisons below on every float.

  The \<open>for\<close> loop of \<open>analizar_sentimientos_vader\<close>, with the two accumulators
  \<open>counts\<close> and \<open>classified_list\<close> passed along.
\<close>

fun analizar_for ::
  "(string \<Rightarrow> real) \<Rightarrow> int dict \<Rightarrow> string dict list \<Rightarrow> string list
     \<Rightarrow> exn + (int dict \<times> string dict list)" where
  "analizar_for compound counts classified_list [] = Inr (counts, classified_list)"
| "analizar_for compound counts classified_list (comentario # rest) =
     (let compound_score = compound comentario in
      if compound_score \<ge> 0.05 then
        (case dict_incr counts ''Positivo'' of
           Inl e \<Rightarrow> Inl e
         | Inr counts' \<Rightarrow>
             analizar_for compound counts'
               (classified_list @
                  [[(''comentario'', comentario), (''sentimiento'', ''Positivo'')]]) rest)
      else if compound_score \<le> - 0.05 then
        (case dict_incr counts ''Negativo'' of
           Inl e \<Rightarrow> Inl e
         | Inr counts' \<Rightarrow>
             analizar_for compound counts'
               (classified_list @
                  [[(''comentario'', comentario), (''sentimiento'', ''Negativo'')]]) rest)
      else
        (case dict_incr counts ''Neutral'' of
           Inl e \<Rightarrow> Inl e
         | Inr counts' \<Rightarrow>
             analizar_for compound counts'
               (classified_list @
                  [[(''comentario'', comentario), (''sentimiento'', ''Neutral'')]]) rest))"

definition analizar_sentimientos_vader ::
  "(string \<Rightarrow> real) \<Rightarrow> string list \<Rightarrow> exn + (int dict \<times> string dict list)" where
  "analizar_sentimientos_vader compound lista_comentarios =
     analizar_for compound
       [(''Positivo'', 0), (''Neutral'', 0), (''Negativo'', 0)] [] lista_comentarios"

section \<open>The external API client\<close>

text \<open>
  The Google API client library is outside the program; it is the parameter \<open>api\<close>.
  A \<open>world\<close> is the number of calls made to the library so far (\<open>build\<close> and
  \<open>execute\<close> alike); every call gets the current world, so its outcome may differ from
  one call to the next, and every function returns the world it leaves behind.

  \<open>build api w serviceName version developerKey\<close> is \<open>Some e\<close> when \<open>build\<close> raises
  \<open>e\<close>. \<open>videos_list api w part id\<close> and
  \<open>commentThreads_list api w part videoId maxResults textFormat pageToken\<close> are the
  outcome of \<open>request.execute()\<close>: \<open>Inl e\<close> when it raises \<open>e\<close>, else the response.

  Of a response the program reads \<open>items\<close> (an absent key is the empty list) and
  \<open>nextPageToken\<close> (absent is \<open>None\<close>). An item is what the program's subscripts get
  from it, \<open>item['snippet']\<close> for a video and
  \<open>item['snippet']['topLevelComment']['snippet']['textDisplay']\<close> for a comment thread,
  or the exception these subscripts raise.
\<close>

type_synonym world = nat

record 'a response =
  items :: "'a list"
  nextPageToken :: "string option"

record thumbnail =
  url :: "string option"

record thumbnails =
  medium :: "thumbnail option"

record video_snippet =
  title :: "string option"
  channelTitle :: "string option"
  thumbnails :: "thumbnails option"
  publishedAt :: "string option"

record googleapiclient =
  build :: "world \<Rightarrow> string \<Rightarrow> string \<Rightarrow> string \<Rightarrow> exn option"
  videos_list :: "world \<Rightarrow> string \<Rightarrow> string \<Rightarrow> exn + (exn + video_snippet) response"
  commentThreads_list ::
    "world \<Rightarrow> string \<Rightarrow> string \<Rightarrow> nat \<Rightarrow> string \<Rightarrow> string option
       \<Rightarrow> exn + (exn + string) response"

record HTTPException =
  status_code :: nat
  detail :: string

text \<open>Python's \<open>not s\<close> for a value that is \<open>None\<close> or a string.\<close>

definition falsy :: "string option \<Rightarrow> bool" where
  "falsy s = (s = None \<or> s = Some [])"

text \<open>\<open>d.get(k, default)\<close> on what the response holds under the key.\<close>

definition get_default :: "'a option \<Rightarrow> 'a \<Rightarrow> 'a" where
  "get_default v d = (case v of None \<Rightarrow> d | Some x \<Rightarrow> x)"

section \<open>The metadata fetcher\<close>

text \<open>
  The body of the \<open>try\<close> of \<open>obtener_info_video\<close>. Non-ASCII letters of the string
  literals are written as their UTF-8 bytes.
\<close>

definition obtener_info_video_try ::
  "googleapiclient \<Rightarrow> string \<Rightarrow> string \<Rightarrow> world \<Rightarrow> (exn + string dict option) \<times> world" where
  "obtener_info_video_try api key video_id w =
     (case build api w ''youtube'' ''v3'' key of
        Some e \<Rightarrow> (Inl e, Suc w)
      | None \<Rightarrow>
          (case videos_list api (Suc w) ''snippet'' video_id of
             Inl e \<Rightarrow> (Inl e, Suc (Suc w))
           | Inr response \<Rightarrow>
               (case items response of
                  [] \<Rightarrow> (Inr None, Suc (Suc w))
                | item # _ \<Rightarrow>
                    (case item of
                       Inl e \<Rightarrow> (Inl e, Suc (Suc w))
                     | Inr video_data \<Rightarrow>
                         (Inr (Some
                            [(''title'', get_default (title video_data)
                                (''T'' @ [CHR 0xC3, CHR 0xAD] @ ''tulo no disponible'')),
                             (''channel'', get_default (channelTitle video_data)
                                ''Canal no disponible''),
                             (''thumbnail'',
                                get_default (url (get_default (medium (get_default
                                  (thumbnails video_data) \<lparr>medium = None\<rparr>))
                                  \<lparr>url = None\<rparr>)) []),
                             (''published_at'', get_default (publishedAt video_data) [])]),
                          Suc (Suc w))))))"

text \<open>\<open>obtener_info_video\<close>: the guard on the key, then the \<open>try\<close> with its handler.\<close>

definition obtener_info_video ::
  "string option \<Rightarrow> googleapiclient \<Rightarrow> string \<Rightarrow> world \<Rightarrow> string dict option \<times> world" where
  "obtener_info_video API_KEY api video_id w =
     (case API_KEY of
        None \<Rightarrow> (None, w)
      | Some key \<Rightarrow>
          if key = [] then (None, w)
          else
            (case obtener_info_video_try api key video_id w of
               (Inl e, w') \<Rightarrow> (None, w')
             | (Inr r, w') \<Rightarrow> (r, w')))"

section \<open>The comment fetcher\<close>

text \<open>The \<open>for\<close> loop over the items of one page.\<close>

fun comentarios_for :: "string list \<Rightarrow> (exn + string) list \<Rightarrow> exn + string list" where
  "comentarios_for comentarios [] = Inr comentarios"
| "comentarios_for comentarios (item # rest) =
     (case item of
        Inl e \<Rightarrow> Inl e
      | Inr comment \<Rightarrow> comentarios_for (comentarios @ [comment]) rest)"

text \<open>
  The \<open>while\<close> loop of \<open>obtener_comentarios_youtube\<close>. It may run forever, so its
  value is an option: \<open>None\<close> when it does not return.
\<close>

partial_function (option) comentarios_while ::
  "googleapiclient \<Rightarrow> string \<Rightarrow> string list \<Rightarrow> string option \<Rightarrow> world
     \<Rightarrow> ((exn + string list) \<times> world) option" where
  "comentarios_while api video_id comentarios next_page_token w =
     (if length comentarios < 100 then
        (case commentThreads_list api w ''snippet'' video_id 100 ''plainText''
                next_page_token of
           Inl e \<Rightarrow> Some (Inl e, Suc w)
         | Inr response \<Rightarrow>
             (case comentarios_for comentarios (items response) of
                Inl e \<Rightarrow> Some (Inl e, Suc w)
              | Inr comentarios' \<Rightarrow>
                  if falsy (nextPageToken response) then Some (Inr comentarios', Suc w)
                  else comentarios_while api video_id comentarios'
                         (nextPageToken response) (Suc w)))
      else Some (Inr comentarios, w))"

definition falta_api_key :: HTTPException where
  "falta_api_key =
     \<lparr>status_code = 503,
      detail = ''Servicio no disponible: Falta configuraci'' @ [CHR 0xC3, CHR 0xB3]
                 @ ''n de API Key en el servidor.''\<rparr>"

definition error_youtube :: "exn \<Rightarrow> HTTPException" where
  "error_youtube e =
     \<lparr>status_code = 500, detail = ''Error al contactar la API de YouTube: '' @ str e\<rparr>"

definition obtener_comentarios_youtube ::
  "string option \<Rightarrow> googleapiclient \<Rightarrow> string \<Rightarrow> world
     \<Rightarrow> ((HTTPException + string list) \<times> world) option" where
  "obtener_comentarios_youtube API_KEY api video_id w =
     (case API_KEY of
        None \<Rightarrow> Some (Inl falta_api_key, w)
      | Some key \<Rightarrow>
          if key = [] then Some (Inl falta_api_key, w)
          else
            (case build api w ''youtube'' ''v3'' key of
               Some e \<Rightarrow> Some (Inl (error_youtube e), Suc w)
             | None \<Rightarrow>
                 (case comentarios_while api video_id [] None (Suc w) of
                    None \<Rightarrow> None
                  | Some (Inl e, w') \<Rightarrow> Some (Inl (error_youtube e), w')
                  | Some (Inr comentarios, w') \<Rightarrow> Some (Inr (take 100 comentarios), w'))))"

section \<open>The request handler\<close>

text \<open>
  \<open>analizar_video\<close> is the body of the handler, as it runs once the framework has
  bound the query parameter \<open>video_id\<close> (the parameter \<open>vid\<close>). An exception that is not
  an \<open>HTTPException\<close> leaves the handler unhandled. The validation that the signature
  declares for \<open>video_id\<close> is applied by the route \<open>ruta_analizar\<close> below, before the
  body runs; its failure is \<open>RequestValidationError\<close>, which the framework answers with
  status 422.
\<close>

datatype failure = HTTP HTTPException | RequestValidationError | Unhandled exn

record payload =
  video_id :: string
  video_info :: "string dict option"
  total_comentarios :: int
  sentimientos :: "int dict"
  lista_comentarios :: "string dict list"

definition sin_comentarios :: HTTPException where
  "sin_comentarios =
     \<lparr>status_code = 404, detail = ''No se encontraron comentarios para este video.''\<rparr>"

definition analizar_video ::
  "string option \<Rightarrow> googleapiclient \<Rightarrow> (string \<Rightarrow> real) \<Rightarrow> string \<Rightarrow> world
     \<Rightarrow> ((failure + payload) \<times> world) option" where
  "analizar_video API_KEY api compound vid w =
     (case obtener_info_video API_KEY api vid w of
        (info, w1) \<Rightarrow>
          (case obtener_comentarios_youtube API_KEY api vid w1 of
             None \<Rightarrow> None
           | Some (Inl h, w2) \<Rightarrow> Some (Inl (HTTP h), w2)
           | Some (Inr comentarios, w2) \<Rightarrow>
               if comentarios = [] then Some (Inl (HTTP sin_comentarios), w2)
               else
                 (case analizar_sentimientos_vader compound comentarios of
                    Inl e \<Rightarrow> Some (Inl (Unhandled e), w2)
                  | Inr (counts, classified_list) \<Rightarrow>
                      Some (Inr \<lparr>video_id = vid,
                                 video_info = info,
                                 total_comentarios = int (length comentarios),
                                 sentimientos = counts,
                                 lista_comentarios = classified_list\<rparr>, w2))))"

text \<open>
  The route \<open>GET /analizar/\<close>: \<open>video_id: str = Query(..., min_length=11, max_length=11)\<close>.
  The query parameter is required (\<open>None\<close> when the request has none) and its length
  must be at least 11 and at most 11; a request that fails this is answered by the
  framework and the body does not run. The length is that of the identifier's
  characters, which are ASCII.
\<close>

definition ruta_analizar ::
  "string option \<Rightarrow> googleapiclient \<Rightarrow> (string \<Rightarrow> real) \<Rightarrow> string option \<Rightarrow> world
     \<Rightarrow> ((failure + payload) \<times> world) option" where
  "ruta_analizar API_KEY api compound query w =
     (case query of
        None \<Rightarrow> Some (Inl RequestValidationError, w)
      | Some vid \<Rightarrow>
          if length vid < 11 \<or> 11 < length vid then Some (Inl RequestValidationError, w)
          else analizar_video API_KEY api compound vid w)"

text \<open>
  The run of the paging loop. \<open>estado api vid k cs tok w\<close> is the state (comments and
  token) in which the loop, started with \<open>cs\<close> and \<open>tok\<close> in world \<open>w\<close>, begins its
  iteration number \<open>k\<close>, each request sent with the token of the page before; it is
  \<open>None\<close> when the loop has ended earlier. \<open>sale api vid cs tok w\<close> says that the iteration
  begun in that state ends the loop: 100 comments are there, or the request raises, or
  an item of the page raises, or the page carries no next-page token.
\<close>

fun estado ::
  "googleapiclient \<Rightarrow> string \<Rightarrow> nat \<Rightarrow> string list \<Rightarrow> string option \<Rightarrow> world
     \<Rightarrow> (string list \<times> string option) option" where
  "estado api vid 0 cs tok w = Some (cs, tok)"
| "estado api vid (Suc k) cs tok w =
     (if length cs < 100 then
        (case commentThreads_list api w ''snippet'' vid 100 ''plainText'' tok of
           Inl e \<Rightarrow> None
         | Inr response \<Rightarrow>
             (case comentarios_for cs (items response) of
                Inl e \<Rightarrow> None
              | Inr cs' \<Rightarrow>
                  if falsy (nextPageToken response) then None
                  else estado api vid k cs' (nextPageToken response) (Suc w)))
      else None)"

definition sale :: "googleapiclient \<Rightarrow> string \<Rightarrow> string list \<Rightarrow> string option \<Rightarrow> world \<Rightarrow> bool" where
  "sale api vid cs tok w =
     (if length cs < 100 then
        (case commentThreads_list api w ''snippet'' vid 100 ''plainText'' tok of
           Inl e \<Rightarrow> True
         | Inr response \<Rightarrow>
             (case comentarios_for cs (items response) of
                Inl e \<Rightarrow> True
              | Inr cs' \<Rightarrow> falsy (nextPageToken response)))
      else True)"

section \<open>Example environments\<close>

text \<open>
  Concrete scorers and API clients on which the theorems below are run. \<open>api_guion\<close> is
  a client whose \<open>build\<close> and \<open>videos().list\<close> have a fixed outcome and whose
  \<open>commentThreads().list\<close> outcome is scripted by the number of the call.
\<close>

definition compound_ejemplo :: "string \<Rightarrow> real" where
  "compound_ejemplo c = (if c = ''love'' then 0.6 else if c = ''hate'' then - 0.6 else 0)"

definition compound_borde :: "string \<Rightarrow> real" where
  "compound_borde c = (if c = ''a'' then 0.05 else if c = ''b'' then - 0.05 else 0)"

definition api_guion ::
  "exn option \<Rightarrow> (exn + (exn + video_snippet) response)
     \<Rightarrow> (world \<Rightarrow> exn + (exn + string) response) \<Rightarrow> googleapiclient" where
  "api_guion b v pages =
     \<lparr>build = (\<lambda>w serviceName version developerKey. b),
      videos_list = (\<lambda>w part ident. v),
      commentThreads_list = (\<lambda>w part videoId maxResults textFormat pageToken. pages w)\<rparr>"

definition sin_video :: "exn + (exn + video_snippet) response" where
  "sin_video = Inr \<lparr>items = [], nextPageToken = None\<rparr>"

definition pagina :: "string list \<Rightarrow> string option \<Rightarrow> exn + (exn + string) response" where
  "pagina textos token = Inr \<lparr>items = map Inr textos, nextPageToken = token\<rparr>"

text \<open>
  \<open>api_sin_fin\<close> answers every page request with no comments and a next-page token.
  \<open>api_llena\<close> answers every page request with one comment and a next-page token.
  \<open>api_cuota\<close> raises on every page request, \<open>api_sin_build\<close> already in \<open>build\<close>, and
  \<open>api_sin_info\<close> raises on the video request and serves one page of comments.
\<close>

definition api_sin_fin :: googleapiclient where
  "api_sin_fin = api_guion None sin_video (\<lambda>w. pagina [] (Some ''t''))"

definition api_llena :: googleapiclient where
  "api_llena = api_guion None sin_video (\<lambda>w. pagina [''c''] (Some ''t''))"

text \<open>
  \<open>api_por_token\<close> answers by the token it is sent: an empty page with a token to the
  first request, the last page to a request that carries a token. \<open>api_alterna\<close>
  answers the even calls with 50 comments and the odd calls with none, always with a
  token. \<open>api_sin_credenciales\<close> raises on every call.
\<close>

definition api_por_token :: googleapiclient where
  "api_por_token =
     \<lparr>build = (\<lambda>w serviceName version developerKey. None),
      videos_list = (\<lambda>w part ident. sin_video),
      commentThreads_list = (\<lambda>w part videoId maxResults textFormat pageToken.
         if pageToken = None then pagina [] (Some ''t'') else pagina [''fin''] None)\<rparr>"

definition api_alterna :: googleapiclient where
  "api_alterna =
     api_guion None sin_video
       (\<lambda>w. if even w then pagina (replicate 50 ''c'') (Some ''t'') else pagina [] (Some ''t''))"

definition api_sin_credenciales :: googleapiclient where
  "api_sin_credenciales =
     api_guion (Some (Exception ''no credentials'')) (Inl (Exception ''no credentials''))
       (\<lambda>w. Inl (Exception ''no credentials''))"

definition api_cuota :: googleapiclient where
  "api_cuota = api_guion None sin_video (\<lambda>w. Inl (Exception ''quotaExceeded''))"

definition api_sin_build :: googleapiclient where
  "api_sin_build =
     api_guion (Some (Exception ''keyInvalid'')) sin_video (\<lambda>w. pagina [''love''] None)"

definition api_sin_info :: googleapiclient where
  "api_sin_info =
     api_guion None (Inl (Exception ''backendError'')) (\<lambda>w. pagina [''love''] None)"

section \<open>Properties of the classifier\<close>

text \<open>The label the thresholds give to a score, used to state the loop's result.\<close>

definition etiqueta :: "real \<Rightarrow> string" where
  "etiqueta x = (if x \<ge> 0.05 then ''Positivo'' else if x \<le> - 0.05 then ''Negativo''
                 else ''Neutral'')"

definition clasificado :: "(string \<Rightarrow> real) \<Rightarrow> string \<Rightarrow> string dict" where
  "clasificado compound c = [(''comentario'', c), (''sentimiento'', etiqueta (compound c))]"

lemma analizar_for_result:
  "\<exists>p' n' g'.
     analizar_for compound [(''Positivo'', p), (''Neutral'', n), (''Negativo'', g)] cl xs
       = Inr ([(''Positivo'', p'), (''Neutral'', n'), (''Negativo'', g')],
              cl @ map (clasificado compound) xs)
     \<and> p' + n' + g' = p + n + g + int (length xs)
     \<and> p \<le> p' \<and> n \<le> n' \<and> g \<le> g'"
proof (induction xs arbitrary: p n g cl)
  case Nil
  show ?case by simp
next
  case (Cons x xs)
  consider (pos) "compound x \<ge> 0.05"
    | (neg) "\<not> compound x \<ge> 0.05" "compound x \<le> - 0.05"
    | (neu) "\<not> compound x \<ge> 0.05" "\<not> compound x \<le> - 0.05"
    by blast
  then show ?case
  proof cases
    case pos
    from Cons.IH [of "p + 1" n g "cl @ [clasificado compound x]"]
    obtain p' n' g' where
      "analizar_for compound [(''Positivo'', p + 1), (''Neutral'', n), (''Negativo'', g)]
         (cl @ [clasificado compound x]) xs
       = Inr ([(''Positivo'', p'), (''Neutral'', n'), (''Negativo'', g')],
              (cl @ [clasificado compound x]) @ map (clasificado compound) xs)"
      "p' + n' + g' = p + 1 + n + g + int (length xs)"
      "p + 1 \<le> p'" "n \<le> n'" "g \<le> g'"
      by blast
    with pos show ?thesis
      by (simp add: dict_incr_def clasificado_def etiqueta_def)
  next
    case neg
    from Cons.IH [of p n "g + 1" "cl @ [clasificado compound x]"]
    obtain p' n' g' where
      "analizar_for compound [(''Positivo'', p), (''Neutral'', n), (''Negativo'', g + 1)]
         (cl @ [clasificado compound x]) xs
       = Inr ([(''Positivo'', p'), (''Neutral'', n'), (''Negativo'', g')],
              (cl @ [clasificado compound x]) @ map (clasificado compound) xs)"
      "p' + n' + g' = p + n + (g + 1) + int (length xs)"
      "p \<le> p'" "n \<le> n'" "g + 1 \<le> g'"
      by blast
    with neg show ?thesis
      by (simp add: dict_incr_def clasificado_def etiqueta_def)
  next
    case neu
    from Cons.IH [of p "n + 1" g "cl @ [clasificado compound x]"]
    obtain p' n' g' where
      "analizar_for compound [(''Positivo'', p), (''Neutral'', n + 1), (''Negativo'', g)]
         (cl @ [clasificado compound x]) xs
       = Inr ([(''Positivo'', p'), (''Neutral'', n'), (''Negativo'', g')],
              (cl @ [clasificado compound x]) @ map (clasificado compound) xs)"
      "p' + n' + g' = p + (n + 1) + g + int (length xs)"
      "p \<le> p'" "n + 1 \<le> n'" "g \<le> g'"
      by blast
    with neu show ?thesis
      by (simp add: dict_incr_def clasificado_def etiqueta_def)
  qed
qed

lemma analizar_sentimientos_vader_result:
  "\<exists>p n g.
     analizar_sentimientos_vader compound xs
       = Inr ([(''Positivo'', p), (''Neutral'', n), (''Negativo'', g)],
              map (clasificado compound) xs)
     \<and> p + n + g = int (length xs) \<and> 0 \<le> p \<and> 0 \<le> n \<and> 0 \<le> g"
  using analizar_for_result [of compound 0 0 0 "[]" xs]
  unfolding analizar_sentimientos_vader_def by auto

text \<open>
  C1. For every scorer and every list of comments the classifier returns (it has no
  failure path); the counts hold exactly the three labels Positivo, Neutral and
  Negativo, in this order, and the three counts add up to the length of the list.
\<close>

theorem classifier_counts_sum:
  "\<exists>p n g cl.
     analizar_sentimientos_vader compound xs
       = Inr ([(''Positivo'', p), (''Neutral'', n), (''Negativo'', g)], cl)
     \<and> p + n + g = int (length xs)"
  using analizar_sentimientos_vader_result [of compound xs] by blast

theorem classifier_counts_sum_witness:
  "analizar_sentimientos_vader compound_ejemplo [''love'', ''hate'', ''ok'']
     = Inr ([(''Positivo'', 1), (''Neutral'', 1), (''Negativo'', 1)],
            [[(''comentario'', ''love''), (''sentimiento'', ''Positivo'')],
             [(''comentario'', ''hate''), (''sentimiento'', ''Negativo'')],
             [(''comentario'', ''ok''), (''sentimiento'', ''Neutral'')]])
   \<and> (1::int) + 1 + 1 = int (length [''love'', ''hate'', ''ok''])"
  using classifier_counts_sum [of compound_ejemplo "[''love'', ''hate'', ''ok'']"]
  by (simp add: analizar_sentimientos_vader_def dict_incr_def compound_ejemplo_def)

text \<open>
  C2. The label of the comment at every position is a function of its compound score
  alone, with inclusive thresholds: Positivo from 0.05 upwards, Negativo from -0.05
  downwards, Neutral in between.
\<close>

theorem classifier_labels:
  "\<exists>counts cl.
     analizar_sentimientos_vader compound xs = Inr (counts, cl)
     \<and> (\<forall>i<length xs.
          map_of (cl ! i) ''sentimiento'' =
            Some (if compound (xs ! i) \<ge> 0.05 then ''Positivo''
                  else if compound (xs ! i) \<le> - 0.05 then ''Negativo''
                  else ''Neutral''))"
  using analizar_sentimientos_vader_result [of compound xs]
  by (auto simp: clasificado_def etiqueta_def)

text \<open>The boundaries: scores 0.05, -0.05 and 0.0 give Positivo, Negativo and Neutral.\<close>

theorem classifier_labels_witness:
  "compound_borde ''a'' = 0.05 \<and> compound_borde ''b'' = - 0.05 \<and> compound_borde ''c'' = 0
   \<and> (\<exists>counts cl.
        analizar_sentimientos_vader compound_borde [''a'', ''b'', ''c''] = Inr (counts, cl)
        \<and> map_of (cl ! 0) ''sentimiento'' = Some ''Positivo''
        \<and> map_of (cl ! 1) ''sentimiento'' = Some ''Negativo''
        \<and> map_of (cl ! 2) ''sentimiento'' = Some ''Neutral'')"
proof -
  from classifier_labels [of compound_borde "[''a'', ''b'', ''c'']"]
  obtain counts cl where
    r: "analizar_sentimientos_vader compound_borde [''a'', ''b'', ''c''] = Inr (counts, cl)"
    and l: "\<forall>i<length [''a'', ''b'', ''c''].
          map_of (cl ! i) ''sentimiento'' =
            Some (if compound_borde ([''a'', ''b'', ''c''] ! i) \<ge> 0.05 then ''Positivo''
                  else if compound_borde ([''a'', ''b'', ''c''] ! i) \<le> - 0.05 then ''Negativo''
                  else ''Neutral'')"
    by blast
  from l have "map_of (cl ! 0) ''sentimiento'' = Some ''Positivo''"
    by (simp add: compound_borde_def)
  moreover from l have "map_of (cl ! 1) ''sentimiento'' = Some ''Negativo''"
    by (simp add: compound_borde_def)
  moreover from l have "map_of (cl ! 2) ''sentimiento'' = Some ''Neutral''"
    by (simp add: compound_borde_def)
  ultimately show ?thesis
    using r by (simp add: compound_borde_def)
qed

text \<open>
  C3. The classified list has the length of the input, and its entry at every
  position is the pair of the input comment of that position, under the key
  comentario, with the label of that comment, under the key sentimiento: the order of
  the input is kept and each comment stays with its own label.
\<close>

theorem classifier_order:
  "\<exists>counts cl.
     analizar_sentimientos_vader compound xs = Inr (counts, cl)
     \<and> length cl = length xs
     \<and> (\<forall>i<length xs.
          cl ! i =
            [(''comentario'', xs ! i),
             (''sentimiento'',
                if compound (xs ! i) \<ge> 0.05 then ''Positivo''
                else if compound (xs ! i) \<le> - 0.05 then ''Negativo''
                else ''Neutral'')])"
  using analizar_sentimientos_vader_result [of compound xs]
  by (auto simp: clasificado_def etiqueta_def)

theorem classifier_order_witness:
  "\<exists>counts cl.
     analizar_sentimientos_vader compound_ejemplo [''hate'', ''ok'', ''love''] = Inr (counts, cl)
     \<and> length cl = 3
     \<and> cl ! 0 = [(''comentario'', ''hate''), (''sentimiento'', ''Negativo'')]
     \<and> cl ! 1 = [(''comentario'', ''ok''), (''sentimiento'', ''Neutral'')]
     \<and> cl ! 2 = [(''comentario'', ''love''), (''sentimiento'', ''Positivo'')]"
proof -
  from classifier_order [of compound_ejemplo "[''hate'', ''ok'', ''love'']"]
  obtain counts cl where
    r: "analizar_sentimientos_vader compound_ejemplo [''hate'', ''ok'', ''love'']
          = Inr (counts, cl)"
    and n: "length cl = length [''hate'', ''ok'', ''love'']"
    and l: "\<forall>i<length [''hate'', ''ok'', ''love''].
          cl ! i =
            [(''comentario'', [''hate'', ''ok'', ''love''] ! i),
             (''sentimiento'',
                if compound_ejemplo ([''hate'', ''ok'', ''love''] ! i) \<ge> 0.05 then ''Positivo''
                else if compound_ejemplo ([''hate'', ''ok'', ''love''] ! i) \<le> - 0.05
                  then ''Negativo''
                else ''Neutral'')]"
    by blast
  from l have "cl ! 0 = [(''comentario'', ''hate''), (''sentimiento'', ''Negativo'')]"
    by (simp add: compound_ejemplo_def)
  moreover from l have "cl ! 1 = [(''comentario'', ''ok''), (''sentimiento'', ''Neutral'')]"
    by (simp add: compound_ejemplo_def)
  moreover from l have "cl ! 2 = [(''comentario'', ''love''), (''sentimiento'', ''Positivo'')]"
    by (simp add: compound_ejemplo_def)
  ultimately show ?thesis using r n by simp
qed

section \<open>Properties of the comment fetcher\<close>

lemma comentarios_for_Inr: "comentarios_for cs (map Inr xs) = Inr (cs @ xs)"
  by (induction xs arbitrary: cs) auto

lemma comentarios_for_replicate:
  "comentarios_for cs (replicate n (Inr x)) = Inr (cs @ replicate n x)"
  using comentarios_for_Inr [of cs "replicate n x"] by simp

lemma comentarios_for_length:
  "comentarios_for cs its = Inr cs' \<Longrightarrow> length cs' = length cs + length its"
  by (induction its arbitrary: cs) (auto split: sum.splits)

text \<open>One unfolding of the loop, by the branch it takes.\<close>

lemma while_done:
  "\<not> length cs < 100 \<Longrightarrow> comentarios_while api vid cs tok w = Some (Inr cs, w)"
  by (subst comentarios_while.simps) simp

lemma while_raise:
  "length cs < 100 \<Longrightarrow> commentThreads_list api w ''snippet'' vid 100 ''plainText'' tok = Inl e
     \<Longrightarrow> comentarios_while api vid cs tok w = Some (Inl e, Suc w)"
  by (subst comentarios_while.simps) simp

lemma while_item_raise:
  "length cs < 100 \<Longrightarrow> commentThreads_list api w ''snippet'' vid 100 ''plainText'' tok = Inr r
     \<Longrightarrow> comentarios_for cs (items r) = Inl e
     \<Longrightarrow> comentarios_while api vid cs tok w = Some (Inl e, Suc w)"
  by (subst comentarios_while.simps) simp

lemma while_last_page:
  "length cs < 100 \<Longrightarrow> commentThreads_list api w ''snippet'' vid 100 ''plainText'' tok = Inr r
     \<Longrightarrow> comentarios_for cs (items r) = Inr cs' \<Longrightarrow> falsy (nextPageToken r)
     \<Longrightarrow> comentarios_while api vid cs tok w = Some (Inr cs', Suc w)"
  by (subst comentarios_while.simps) simp

lemma while_next_page:
  "length cs < 100 \<Longrightarrow> commentThreads_list api w ''snippet'' vid 100 ''plainText'' tok = Inr r
     \<Longrightarrow> comentarios_for cs (items r) = Inr cs' \<Longrightarrow> \<not> falsy (nextPageToken r)
     \<Longrightarrow> comentarios_while api vid cs tok w
         = comentarios_while api vid cs' (nextPageToken r) (Suc w)"
  by (subst comentarios_while.simps) simp

text \<open>The loop on a scripted client whose page at the current call is \<open>pagina\<close>.\<close>

lemma while_guion_last:
  "length cs < 100 \<Longrightarrow> pages w = pagina textos token \<Longrightarrow> falsy token
     \<Longrightarrow> comentarios_while (api_guion b v pages) vid cs tok w = Some (Inr (cs @ textos), Suc w)"
  by (rule while_last_page [where r = "\<lparr>items = map Inr textos, nextPageToken = token\<rparr>"])
     (simp_all add: api_guion_def pagina_def comentarios_for_Inr)

lemma while_guion_next:
  "length cs < 100 \<Longrightarrow> pages w = pagina textos token \<Longrightarrow> \<not> falsy token
     \<Longrightarrow> comentarios_while (api_guion b v pages) vid cs tok w
         = comentarios_while (api_guion b v pages) vid (cs @ textos) token (Suc w)"
  using while_next_page [where r = "\<lparr>items = map Inr textos, nextPageToken = token\<rparr>"
      and api = "api_guion b v pages" and cs = cs and cs' = "cs @ textos" and w = w
      and vid = vid and tok = tok]
  by (simp add: api_guion_def pagina_def comentarios_for_Inr)

lemma info_guion_sin_video:
  "key \<noteq> [] \<Longrightarrow> obtener_info_video (Some key) (api_guion None sin_video pages) vid w
     = (None, Suc (Suc w))"
  by (simp add: obtener_info_video_def obtener_info_video_try_def api_guion_def sin_video_def)

lemma api_guion_sel:
  "build (api_guion b v pages) w serviceName version key = b"
  "videos_list (api_guion b v pages) w part ident = v"
  "commentThreads_list (api_guion b v pages) w part vid n fmt tok = pages w"
  by (simp_all add: api_guion_def)

text \<open>The fetcher around the loop, once the key is configured and \<open>build\<close> returns.\<close>

lemma fetch_from_loop:
  "key \<noteq> [] \<Longrightarrow> build api w ''youtube'' ''v3'' key = None
     \<Longrightarrow> comentarios_while api vid [] None (Suc w) = Some (Inr cs, w')
     \<Longrightarrow> obtener_comentarios_youtube (Some key) api vid w = Some (Inr (take 100 cs), w')"
  by (simp add: obtener_comentarios_youtube_def)

lemma fetch_from_loop_raise:
  "key \<noteq> [] \<Longrightarrow> build api w ''youtube'' ''v3'' key = None
     \<Longrightarrow> comentarios_while api vid [] None (Suc w) = Some (Inl e, w')
     \<Longrightarrow> obtener_comentarios_youtube (Some key) api vid w = Some (Inl (error_youtube e), w')"
  by (simp add: obtener_comentarios_youtube_def)

text \<open>
  C4. Whatever the client answers, a list that \<open>obtener_comentarios_youtube\<close> returns
  has at most 100 comments.
\<close>

theorem fetch_at_most_100:
  "obtener_comentarios_youtube API_KEY api vid w = Some (Inr cs, w') \<Longrightarrow> length cs \<le> 100"
  by (auto simp: obtener_comentarios_youtube_def
           split: option.splits if_splits sum.splits prod.splits)

text \<open>A single page of 150 comments that carries a token: 100 comments come back.\<close>

theorem fetch_at_most_100_witness:
  "obtener_comentarios_youtube (Some ''key'')
     (api_guion None sin_video (\<lambda>w. pagina (replicate 150 ''c'') (Some ''t'')))
     ''dQw4w9WgXcQ'' 0
     = Some (Inr (replicate 100 ''c''), 2)
   \<and> length (replicate 100 ''c'') \<le> 100"
proof -
  let ?api = "api_guion None sin_video (\<lambda>w. pagina (replicate 150 ''c'') (Some ''t''))"
  have "comentarios_while ?api ''dQw4w9WgXcQ'' [] None (Suc 0)
          = comentarios_while ?api ''dQw4w9WgXcQ'' ([] @ replicate 150 ''c'') (Some ''t'')
              (Suc (Suc 0))"
    by (rule while_guion_next [where textos = "replicate 150 ''c''" and token = "Some ''t''"])
       (simp_all add: falsy_def)
  also have "\<dots> = Some (Inr (replicate 150 ''c''), Suc (Suc 0))"
    by (simp add: while_done)
  finally have loop: "comentarios_while ?api ''dQw4w9WgXcQ'' [] None (Suc 0)
          = Some (Inr (replicate 150 ''c''), Suc (Suc 0))" .
  have "obtener_comentarios_youtube (Some ''key'') ?api ''dQw4w9WgXcQ'' 0
             = Some (Inr (take 100 (replicate 150 ''c'')), Suc (Suc 0))"
    by (rule fetch_from_loop [OF _ _ loop]) (simp_all add: api_guion_sel)
  then have h: "obtener_comentarios_youtube (Some ''key'') ?api ''dQw4w9WgXcQ'' 0
             = Some (Inr (replicate 100 ''c''), 2)"
    by simp
  from h fetch_at_most_100 [OF h] show ?thesis by simp
qed

section \<open>Properties of the request handler\<close>

text \<open>The route runs the body exactly for a \<open>video_id\<close> of 11 characters.\<close>

lemma ruta_valida:
  "length vid = 11 \<Longrightarrow>
     ruta_analizar API_KEY api compound (Some vid) w = analizar_video API_KEY api compound vid w"
  by (simp add: ruta_analizar_def)

lemma ruta_invalida:
  "length vid \<noteq> 11 \<Longrightarrow>
     ruta_analizar API_KEY api compound (Some vid) w = Some (Inl RequestValidationError, w)"
  by (auto simp: ruta_analizar_def)

text \<open>
  C5, as the claim states it, fails: with the API key not configured, a call to
  \<open>/analizar/\<close> whose \<open>video_id\<close> has not 11 characters is rejected by the validation
  of the query parameter and does not get the 503 answer.
\<close>

theorem sin_api_key_not_every_call:
  "ruta_analizar None api_sin_credenciales compound_ejemplo (Some ''short'') 0
     = Some (Inl RequestValidationError, 0)
   \<and> ruta_analizar None api_sin_credenciales compound_ejemplo (Some ''short'') 0
     \<noteq> Some (Inl (HTTP falta_api_key), 0)"
  by (simp add: ruta_analizar_def)

text \<open>
  C5, amended. When the API key is not configured (\<open>None\<close> or the empty string), every
  call to \<open>/analizar/\<close> whose \<open>video_id\<close> passes the validation (11 characters) ends with
  the 503 exception, and so does every run of the handler body; the metadata fetcher
  returns \<open>None\<close> and the comment fetcher raises the 503 exception, both without any
  call to the client (the world is unchanged). A call whose \<open>video_id\<close> has another
  length is rejected before the body runs.
\<close>

theorem sin_api_key_503:
  assumes k: "falsy API_KEY"
  shows
    "obtener_info_video API_KEY api vid w = (None, w)
     \<and> obtener_comentarios_youtube API_KEY api vid w = Some (Inl falta_api_key, w)
     \<and> analizar_video API_KEY api compound vid w = Some (Inl (HTTP falta_api_key), w)
     \<and> (length vid = 11 \<longrightarrow>
          ruta_analizar API_KEY api compound (Some vid) w = Some (Inl (HTTP falta_api_key), w))
     \<and> (length vid \<noteq> 11 \<longrightarrow>
          ruta_analizar API_KEY api compound (Some vid) w = Some (Inl RequestValidationError, w))
     \<and> status_code falta_api_key = 503"
proof -
  have i: "obtener_info_video API_KEY api vid w = (None, w)"
    using k by (auto simp: falsy_def obtener_info_video_def)
  have c: "obtener_comentarios_youtube API_KEY api vid w = Some (Inl falta_api_key, w)"
    using k by (auto simp: falsy_def obtener_comentarios_youtube_def)
  have a: "analizar_video API_KEY api compound vid w = Some (Inl (HTTP falta_api_key), w)"
    by (simp add: analizar_video_def i c)
  have s: "status_code falta_api_key = 503"
    by (simp add: falta_api_key_def)
  from i c a s show ?thesis
    by (simp add: ruta_valida ruta_invalida)
qed

theorem sin_api_key_503_witness:
  "falsy None
   \<and> length ''dQw4w9WgXcQ'' = 11
   \<and> obtener_info_video None api_sin_credenciales ''dQw4w9WgXcQ'' 0 = (None, 0)
   \<and> obtener_comentarios_youtube None api_sin_credenciales ''dQw4w9WgXcQ'' 0
       = Some (Inl falta_api_key, 0)
   \<and> analizar_video None api_sin_credenciales compound_ejemplo ''dQw4w9WgXcQ'' 0
       = Some (Inl (HTTP falta_api_key), 0)
   \<and> ruta_analizar None api_sin_credenciales compound_ejemplo (Some ''dQw4w9WgXcQ'') 0
       = Some (Inl (HTTP falta_api_key), 0)
   \<and> status_code falta_api_key = 503"
proof -
  have h: "falsy None" by (simp add: falsy_def)
  have n: "length ''dQw4w9WgXcQ'' = 11" by simp
  from h n sin_api_key_503 [OF h, of api_sin_credenciales "''dQw4w9WgXcQ''" 0 compound_ejemplo]
  show ?thesis by simp
qed

text \<open>
  C6. When the comment fetch returns the empty list, the handler ends with the 404
  exception, whatever the scorer is: the classifier is not run and no payload is
  returned.
\<close>

theorem sin_comentarios_404:
  "obtener_info_video API_KEY api vid w = (info, w1) \<Longrightarrow>
   obtener_comentarios_youtube API_KEY api vid w1 = Some (Inr [], w2) \<Longrightarrow>
     analizar_video API_KEY api compound vid w = Some (Inl (HTTP sin_comentarios), w2)
     \<and> status_code sin_comentarios = 404"
  by (simp add: analizar_video_def sin_comentarios_def)

theorem sin_comentarios_404_witness:
  "obtener_info_video (Some ''key'') (api_guion None sin_video (\<lambda>w. pagina [] None))
     ''dQw4w9WgXcQ'' 0 = (None, 2)
   \<and> obtener_comentarios_youtube (Some ''key'') (api_guion None sin_video (\<lambda>w. pagina [] None))
       ''dQw4w9WgXcQ'' 2 = Some (Inr [], 4)
   \<and> analizar_video (Some ''key'') (api_guion None sin_video (\<lambda>w. pagina [] None))
       compound_ejemplo ''dQw4w9WgXcQ'' 0 = Some (Inl (HTTP sin_comentarios), 4)
   \<and> status_code sin_comentarios = 404"
proof -
  let ?api = "api_guion None sin_video (\<lambda>w. pagina [] None)"
  have i: "obtener_info_video (Some ''key'') ?api ''dQw4w9WgXcQ'' 0 = (None, 2)"
    by (simp add: info_guion_sin_video)
  have "comentarios_while ?api ''dQw4w9WgXcQ'' [] None (Suc 2) = Some (Inr ([] @ []), Suc (Suc 2))"
    by (rule while_guion_last [where textos = "[]" and token = None])
       (simp_all add: falsy_def)
  then have loop: "comentarios_while ?api ''dQw4w9WgXcQ'' [] None (Suc 2)
                     = Some (Inr [], Suc (Suc 2))"
    by simp
  have "obtener_comentarios_youtube (Some ''key'') ?api ''dQw4w9WgXcQ'' 2
             = Some (Inr (take 100 []), Suc (Suc 2))"
    by (rule fetch_from_loop [OF _ _ loop]) (simp_all add: api_guion_sel)
  then have c: "obtener_comentarios_youtube (Some ''key'') ?api ''dQw4w9WgXcQ'' 2
             = Some (Inr [], 4)"
    by simp
  from i c sin_comentarios_404 [OF i c, of compound_ejemplo] show ?thesis by simp
qed

text \<open>
  C10. In every payload the handler returns, \<open>total_comentarios\<close> is the length of
  \<open>lista_comentarios\<close> and the sum of the three counts of \<open>sentimientos\<close>.
\<close>

theorem payload_consistent:
  assumes "analizar_video API_KEY api compound vid w = Some (Inr p, w')"
  shows "total_comentarios p = int (length (lista_comentarios p))
         \<and> (\<exists>a b c. sentimientos p = [(''Positivo'', a), (''Neutral'', b), (''Negativo'', c)]
                     \<and> a + b + c = total_comentarios p)"
proof -
  obtain info w1 where i: "obtener_info_video API_KEY api vid w = (info, w1)"
    by (cases "obtener_info_video API_KEY api vid w")
  from assms i obtain cs where
    c: "obtener_comentarios_youtube API_KEY api vid w1 = Some (Inr cs, w')" and ne: "cs \<noteq> []"
    by (auto simp: analizar_video_def split: option.splits sum.splits prod.splits if_splits)
  from analizar_sentimientos_vader_result [of compound cs] obtain a b g where
    r: "analizar_sentimientos_vader compound cs
          = Inr ([(''Positivo'', a), (''Neutral'', b), (''Negativo'', g)],
                 map (clasificado compound) cs)"
    and s: "a + b + g = int (length cs)"
    by blast
  from assms i c ne r have
    "p = \<lparr>video_id = vid, video_info = info, total_comentarios = int (length cs),
          sentimientos = [(''Positivo'', a), (''Neutral'', b), (''Negativo'', g)],
          lista_comentarios = map (clasificado compound) cs\<rparr>"
    by (simp add: analizar_video_def)
  with s show ?thesis by simp
qed

text \<open>The scenario of three comments with scores 0.6, -0.6 and 0.0.\<close>

theorem payload_consistent_witness:
  "analizar_video (Some ''key'')
     (api_guion None sin_video (\<lambda>w. pagina [''love'', ''hate'', ''ok''] None))
     compound_ejemplo ''dQw4w9WgXcQ'' 0
     = Some (Inr \<lparr>video_id = ''dQw4w9WgXcQ'', video_info = None, total_comentarios = 3,
                  sentimientos = [(''Positivo'', 1), (''Neutral'', 1), (''Negativo'', 1)],
                  lista_comentarios =
                    [[(''comentario'', ''love''), (''sentimiento'', ''Positivo'')],
                     [(''comentario'', ''hate''), (''sentimiento'', ''Negativo'')],
                     [(''comentario'', ''ok''), (''sentimiento'', ''Neutral'')]]\<rparr>, 4)
   \<and> (3::int) = int (length
          [[(''comentario'', ''love''), (''sentimiento'', ''Positivo'')],
           [(''comentario'', ''hate''), (''sentimiento'', ''Negativo'')],
           [(''comentario'', ''ok''), (''sentimiento'', ''Neutral'')]])
   \<and> (1::int) + 1 + 1 = 3"
proof -
  let ?api = "api_guion None sin_video (\<lambda>w. pagina [''love'', ''hate'', ''ok''] None)"
  have i: "obtener_info_video (Some ''key'') ?api ''dQw4w9WgXcQ'' 0 = (None, 2)"
    by (simp add: info_guion_sin_video)
  have "comentarios_while ?api ''dQw4w9WgXcQ'' [] None (Suc 2)
          = Some (Inr ([] @ [''love'', ''hate'', ''ok'']), Suc (Suc 2))"
    by (rule while_guion_last [where textos = "[''love'', ''hate'', ''ok'']" and token = None])
       (simp_all add: falsy_def)
  then have loop: "comentarios_while ?api ''dQw4w9WgXcQ'' [] None (Suc 2)
          = Some (Inr [''love'', ''hate'', ''ok''], Suc (Suc 2))"
    by simp
  have "obtener_comentarios_youtube (Some ''key'') ?api ''dQw4w9WgXcQ'' 2
             = Some (Inr (take 100 [''love'', ''hate'', ''ok'']), Suc (Suc 2))"
    by (rule fetch_from_loop [OF _ _ loop]) (simp_all add: api_guion_sel)
  then have c: "obtener_comentarios_youtube (Some ''key'') ?api ''dQw4w9WgXcQ'' 2
             = Some (Inr [''love'', ''hate'', ''ok''], 4)"
    by simp
  have r: "analizar_sentimientos_vader compound_ejemplo [''love'', ''hate'', ''ok'']
     = Inr ([(''Positivo'', 1), (''Neutral'', 1), (''Negativo'', 1)],
            [[(''comentario'', ''love''), (''sentimiento'', ''Positivo'')],
             [(''comentario'', ''hate''), (''sentimiento'', ''Negativo'')],
             [(''comentario'', ''ok''), (''sentimiento'', ''Neutral'')]])"
    by (simp add: analizar_sentimientos_vader_def dict_incr_def compound_ejemplo_def)
  have h: "analizar_video (Some ''key'') ?api compound_ejemplo ''dQw4w9WgXcQ'' 0
     = Some (Inr \<lparr>video_id = ''dQw4w9WgXcQ'', video_info = None, total_comentarios = 3,
                  sentimientos = [(''Positivo'', 1), (''Neutral'', 1), (''Negativo'', 1)],
                  lista_comentarios =
                    [[(''comentario'', ''love''), (''sentimiento'', ''Positivo'')],
                     [(''comentario'', ''hate''), (''sentimiento'', ''Negativo'')],
                     [(''comentario'', ''ok''), (''sentimiento'', ''Neutral'')]]\<rparr>, 4)"
    by (simp add: analizar_video_def i c r)
  from h payload_consistent [OF h] show ?thesis by simp
qed

section \<open>Failures of the external API\<close>

text \<open>
  C7. A failure while fetching the metadata stays inside \<open>obtener_info_video\<close>: with
  the key configured, it returns \<open>None\<close> when the \<open>try\<close> body raises any exception (in
  particular when \<open>build\<close> or the request raises, or the subscripts of the first item
  raise) and when the response has no item. The handler then goes on: if the comment
  fetch gives a non-empty list, it returns a payload whose \<open>video_info\<close> is \<open>None\<close>.
\<close>

theorem metadata_failure_swallowed:
  assumes "key \<noteq> []"
  shows
    "(obtener_info_video_try api key vid w = (Inl e, w1)
        \<longrightarrow> obtener_info_video (Some key) api vid w = (None, w1))
     \<and> (build api w ''youtube'' ''v3'' key = Some e
         \<or> videos_list api (Suc w) ''snippet'' vid = Inl e
         \<or> (\<exists>r. videos_list api (Suc w) ''snippet'' vid = Inr r
                 \<and> (items r = [] \<or> (\<exists>rest. items r = Inl e # rest)))
        \<longrightarrow> fst (obtener_info_video (Some key) api vid w) = None)
     \<and> (obtener_info_video (Some key) api vid w = (None, w1)
         \<and> obtener_comentarios_youtube (Some key) api vid w1 = Some (Inr cs, w2) \<and> cs \<noteq> []
        \<longrightarrow> (\<exists>p. analizar_video (Some key) api compound vid w = Some (Inr p, w2)
                 \<and> video_info p = None
                 \<and> total_comentarios p = int (length cs)))"
proof (intro conjI impI)
  assume "obtener_info_video_try api key vid w = (Inl e, w1)"
  with assms show "obtener_info_video (Some key) api vid w = (None, w1)"
    by (simp add: obtener_info_video_def)
next
  assume "build api w ''youtube'' ''v3'' key = Some e
         \<or> videos_list api (Suc w) ''snippet'' vid = Inl e
         \<or> (\<exists>r. videos_list api (Suc w) ''snippet'' vid = Inr r
                 \<and> (items r = [] \<or> (\<exists>rest. items r = Inl e # rest)))"
  with assms show "fst (obtener_info_video (Some key) api vid w) = None"
    by (auto simp: obtener_info_video_def obtener_info_video_try_def
             split: option.splits sum.splits list.splits)
next
  assume a: "obtener_info_video (Some key) api vid w = (None, w1)
         \<and> obtener_comentarios_youtube (Some key) api vid w1 = Some (Inr cs, w2) \<and> cs \<noteq> []"
  from analizar_sentimientos_vader_result [of compound cs] obtain counts cl where
    "analizar_sentimientos_vader compound cs = Inr (counts, cl)"
    by blast
  with a show "\<exists>p. analizar_video (Some key) api compound vid w = Some (Inr p, w2)
                 \<and> video_info p = None \<and> total_comentarios p = int (length cs)"
    by (simp add: analizar_video_def)
qed

text \<open>The video request raises, one comment is fetched: a payload without metadata.\<close>

theorem metadata_failure_swallowed_witness:
  "''key'' \<noteq> []
   \<and> obtener_info_video_try api_sin_info ''key'' ''dQw4w9WgXcQ'' 0
       = (Inl (Exception ''backendError''), 2)
   \<and> obtener_info_video (Some ''key'') api_sin_info ''dQw4w9WgXcQ'' 0 = (None, 2)
   \<and> obtener_comentarios_youtube (Some ''key'') api_sin_info ''dQw4w9WgXcQ'' 2
       = Some (Inr [''love''], 4)
   \<and> (\<exists>p. analizar_video (Some ''key'') api_sin_info compound_ejemplo ''dQw4w9WgXcQ'' 0
             = Some (Inr p, 4)
           \<and> video_info p = None \<and> total_comentarios p = 1)"
proof -
  have k: "''key'' \<noteq> []" by simp
  have t: "obtener_info_video_try api_sin_info ''key'' ''dQw4w9WgXcQ'' 0
             = (Inl (Exception ''backendError''), 2)"
    by (simp add: obtener_info_video_try_def api_sin_info_def api_guion_sel)
  note inst = metadata_failure_swallowed [OF k, of api_sin_info "''dQw4w9WgXcQ''" 0
      "Exception ''backendError''" 2 "[''love'']" 4 compound_ejemplo]
  from inst t have i: "obtener_info_video (Some ''key'') api_sin_info ''dQw4w9WgXcQ'' 0 = (None, 2)"
    by blast
  have "comentarios_while api_sin_info ''dQw4w9WgXcQ'' [] None (Suc 2)
          = Some (Inr ([] @ [''love'']), Suc (Suc 2))"
    unfolding api_sin_info_def
    by (rule while_guion_last [where textos = "[''love'']" and token = None])
       (simp_all add: falsy_def)
  then have loop: "comentarios_while api_sin_info ''dQw4w9WgXcQ'' [] None (Suc 2)
          = Some (Inr [''love''], Suc (Suc 2))"
    by simp
  have "obtener_comentarios_youtube (Some ''key'') api_sin_info ''dQw4w9WgXcQ'' 2
          = Some (Inr (take 100 [''love'']), Suc (Suc 2))"
    by (rule fetch_from_loop [OF _ _ loop]) (simp_all add: api_sin_info_def api_guion_sel)
  then have c: "obtener_comentarios_youtube (Some ''key'') api_sin_info ''dQw4w9WgXcQ'' 2
          = Some (Inr [''love''], 4)"
    by simp
  from inst i c have
    "\<exists>p. analizar_video (Some ''key'') api_sin_info compound_ejemplo ''dQw4w9WgXcQ'' 0
            = Some (Inr p, 4)
          \<and> video_info p = None \<and> total_comentarios p = int (length [''love''])"
    by simp
  with k t i c show ?thesis by simp
qed

text \<open>
  The text of the program's own KeyErrors, and of keys that need another quote or an
  escape.
\<close>

lemma str_KeyError_examples:
  "str (KeyError ''snippet'') = [CHR 0x27] @ ''snippet'' @ [CHR 0x27]"
  "str (KeyError ''topLevelComment'') = [CHR 0x27] @ ''topLevelComment'' @ [CHR 0x27]"
  "str (KeyError ''textDisplay'') = [CHR 0x27] @ ''textDisplay'' @ [CHR 0x27]"
  "str (KeyError [CHR ''a'', CHR 0x27, CHR ''b''])
     = [CHR 0x22, CHR ''a'', CHR 0x27, CHR ''b'', CHR 0x22]"
  "str (KeyError [CHR ''a'', CHR 0x27, CHR 0x22])
     = [CHR 0x27, CHR ''a'', CHR 0x5C, CHR 0x27, CHR 0x22, CHR 0x27]"
  "str (KeyError [CHR ''a'', CHR 0x5C, CHR 0x0A, CHR 0x01])
     = [CHR 0x27, CHR ''a'', CHR 0x5C, CHR 0x5C, CHR 0x5C, CHR ''n'',
        CHR 0x5C, CHR ''x'', CHR ''0'', CHR ''1'', CHR 0x27]"
  by (simp_all add: repr_def repr_char_def hex_digit_def Let_def)

text \<open>
  C8. With the key configured, an exception of the client during the comment fetch
  becomes the 500 exception whose detail ends with the text of that exception, and
  nothing is retried: when \<open>build\<close> raises, no request is made; when a page request
  raises, at any point of the loop, the loop ends with that exception after this one
  call; an exception that leaves the loop becomes the 500 exception in the world the
  loop left; and the handler passes the exception of the comment fetch on unchanged,
  in that same world.
\<close>

theorem comment_fetch_error_500:
  assumes "key \<noteq> []"
  shows
    "(build api w ''youtube'' ''v3'' key = Some e
        \<longrightarrow> obtener_comentarios_youtube (Some key) api vid w
              = Some (Inl \<lparr>status_code = 500,
                           detail = ''Error al contactar la API de YouTube: '' @ str e\<rparr>, Suc w))
     \<and> (build api w ''youtube'' ''v3'' key = None
         \<and> commentThreads_list api (Suc w) ''snippet'' vid 100 ''plainText'' None = Inl e
        \<longrightarrow> obtener_comentarios_youtube (Some key) api vid w
              = Some (Inl \<lparr>status_code = 500,
                           detail = ''Error al contactar la API de YouTube: '' @ str e\<rparr>,
                      Suc (Suc w)))
     \<and> (length cs < 100
         \<and> commentThreads_list api w' ''snippet'' vid 100 ''plainText'' tok = Inl e
        \<longrightarrow> comentarios_while api vid cs tok w' = Some (Inl e, Suc w'))
     \<and> (build api w ''youtube'' ''v3'' key = None
         \<and> comentarios_while api vid [] None (Suc w) = Some (Inl e, w2)
        \<longrightarrow> obtener_comentarios_youtube (Some key) api vid w
              = Some (Inl \<lparr>status_code = 500,
                           detail = ''Error al contactar la API de YouTube: '' @ str e\<rparr>, w2))
     \<and> (obtener_info_video (Some key) api vid w0 = (info, w)
         \<and> obtener_comentarios_youtube (Some key) api vid w = Some (Inl h, w2)
        \<longrightarrow> analizar_video (Some key) api compound vid w0 = Some (Inl (HTTP h), w2))"
proof (intro conjI impI)
  assume "build api w ''youtube'' ''v3'' key = Some e"
  with assms show "obtener_comentarios_youtube (Some key) api vid w
              = Some (Inl \<lparr>status_code = 500,
                           detail = ''Error al contactar la API de YouTube: '' @ str e\<rparr>, Suc w)"
    by (simp add: obtener_comentarios_youtube_def error_youtube_def)
next
  assume a: "build api w ''youtube'' ''v3'' key = None
         \<and> commentThreads_list api (Suc w) ''snippet'' vid 100 ''plainText'' None = Inl e"
  then have "comentarios_while api vid [] None (Suc w) = Some (Inl e, Suc (Suc w))"
    by (simp add: while_raise)
  with assms a show "obtener_comentarios_youtube (Some key) api vid w
              = Some (Inl \<lparr>status_code = 500,
                           detail = ''Error al contactar la API de YouTube: '' @ str e\<rparr>,
                      Suc (Suc w))"
    by (simp add: fetch_from_loop_raise error_youtube_def)
next
  assume "length cs < 100
         \<and> commentThreads_list api w' ''snippet'' vid 100 ''plainText'' tok = Inl e"
  then show "comentarios_while api vid cs tok w' = Some (Inl e, Suc w')"
    by (simp add: while_raise)
next
  assume "build api w ''youtube'' ''v3'' key = None
         \<and> comentarios_while api vid [] None (Suc w) = Some (Inl e, w2)"
  with assms show "obtener_comentarios_youtube (Some key) api vid w
              = Some (Inl \<lparr>status_code = 500,
                           detail = ''Error al contactar la API de YouTube: '' @ str e\<rparr>, w2)"
    by (simp add: fetch_from_loop_raise error_youtube_def)
next
  assume "obtener_info_video (Some key) api vid w0 = (info, w)
         \<and> obtener_comentarios_youtube (Some key) api vid w = Some (Inl h, w2)"
  then show "analizar_video (Some key) api compound vid w0 = Some (Inl (HTTP h), w2)"
    by (simp add: analizar_video_def)
qed

text \<open>
  The first page request raises: one \<open>build\<close> and one request for the metadata, one
  \<open>build\<close> and one request for the comments, then the 500 exception. And \<open>build\<close>
  raises: the 500 exception after that one call.
\<close>

theorem comment_fetch_error_500_witness:
  "''key'' \<noteq> []
   \<and> build api_cuota 2 ''youtube'' ''v3'' ''key'' = None
   \<and> commentThreads_list api_cuota (Suc 2) ''snippet'' ''dQw4w9WgXcQ'' 100 ''plainText'' None
       = Inl (Exception ''quotaExceeded'')
   \<and> comentarios_while api_cuota ''dQw4w9WgXcQ'' [] None 3
       = Some (Inl (Exception ''quotaExceeded''), 4)
   \<and> obtener_comentarios_youtube (Some ''key'') api_cuota ''dQw4w9WgXcQ'' 2
       = Some (Inl \<lparr>status_code = 500,
                    detail = ''Error al contactar la API de YouTube: quotaExceeded''\<rparr>, 4)
   \<and> analizar_video (Some ''key'') api_cuota compound_ejemplo ''dQw4w9WgXcQ'' 0
       = Some (Inl (HTTP \<lparr>status_code = 500,
                    detail = ''Error al contactar la API de YouTube: quotaExceeded''\<rparr>), 4)
   \<and> build api_sin_build 0 ''youtube'' ''v3'' ''key'' = Some (Exception ''keyInvalid'')
   \<and> obtener_comentarios_youtube (Some ''key'') api_sin_build ''dQw4w9WgXcQ'' 0
       = Some (Inl \<lparr>status_code = 500,
                    detail = ''Error al contactar la API de YouTube: keyInvalid''\<rparr>, 1)"
proof -
  have k: "''key'' \<noteq> []" by simp
  have b: "build api_cuota 2 ''youtube'' ''v3'' ''key'' = None"
    by (simp add: api_cuota_def api_guion_sel)
  have r: "commentThreads_list api_cuota (Suc 2) ''snippet'' ''dQw4w9WgXcQ'' 100 ''plainText''
             None = Inl (Exception ''quotaExceeded'')"
    by (simp add: api_cuota_def api_guion_sel)
  have i: "obtener_info_video (Some ''key'') api_cuota ''dQw4w9WgXcQ'' 0 = (None, 2)"
    by (simp add: api_cuota_def info_guion_sin_video)
  note inst = comment_fetch_error_500 [OF k, of api_cuota 2 "Exception ''quotaExceeded''"
      "''dQw4w9WgXcQ''" "[]" "Suc 2" None 4 0 None _ compound_ejemplo]
  from inst r have l: "comentarios_while api_cuota ''dQw4w9WgXcQ'' [] None (Suc 2)
                        = Some (Inl (Exception ''quotaExceeded''), Suc (Suc 2))"
    by simp
  from inst b r have c: "obtener_comentarios_youtube (Some ''key'') api_cuota ''dQw4w9WgXcQ'' 2
       = Some (Inl \<lparr>status_code = 500,
                    detail = ''Error al contactar la API de YouTube: quotaExceeded''\<rparr>, 4)"
    by simp
  from comment_fetch_error_500 [OF k, of api_cuota 2 "Exception ''quotaExceeded''"
      "''dQw4w9WgXcQ''" "[]" "Suc 2" None 4 0 None
      "\<lparr>status_code = 500, detail = ''Error al contactar la API de YouTube: quotaExceeded''\<rparr>"
      compound_ejemplo] i c
  have a: "analizar_video (Some ''key'') api_cuota compound_ejemplo ''dQw4w9WgXcQ'' 0
       = Some (Inl (HTTP \<lparr>status_code = 500,
                    detail = ''Error al contactar la API de YouTube: quotaExceeded''\<rparr>), 4)"
    by blast
  have b': "build api_sin_build 0 ''youtube'' ''v3'' ''key'' = Some (Exception ''keyInvalid'')"
    by (simp add: api_sin_build_def api_guion_sel)
  from comment_fetch_error_500 [OF k, of api_sin_build 0 "Exception ''keyInvalid''"
      "''dQw4w9WgXcQ''"] b'
  have c': "obtener_comentarios_youtube (Some ''key'') api_sin_build ''dQw4w9WgXcQ'' 0
       = Some (Inl \<lparr>status_code = 500,
                    detail = ''Error al contactar la API de YouTube: keyInvalid''\<rparr>, 1)"
    by simp
  from l have l': "comentarios_while api_cuota ''dQw4w9WgXcQ'' [] None 3
       = Some (Inl (Exception ''quotaExceeded''), 4)"
    by (simp add: numeral_3_eq_3)
  from k b r l' c a b' c' show ?thesis by blast
qed

section \<open>Termination of the paging loop\<close>

text \<open>
  The loop returns when every page that carries a token has at least one item: the
  list grows with each further request, by induction on what is missing to 100.
\<close>

lemma while_terminates_progress:
  assumes "\<forall>w' tok r. commentThreads_list api w' ''snippet'' vid 100 ''plainText'' tok = Inr r
             \<and> \<not> falsy (nextPageToken r) \<longrightarrow> items r \<noteq> []"
  shows "\<exists>res. comentarios_while api vid cs tok0 w = Some res"
proof (induction "100 - length cs" arbitrary: cs tok0 w rule: less_induct)
  case less
  show ?case
  proof (cases "length cs < 100")
    case False
    then show ?thesis by (simp add: while_done)
  next
    case True
    show ?thesis
    proof (cases "commentThreads_list api w ''snippet'' vid 100 ''plainText'' tok0")
      case (Inl e)
      with True show ?thesis by (simp add: while_raise)
    next
      case (Inr r)
      show ?thesis
      proof (cases "comentarios_for cs (items r)")
        case (Inl e)
        with True Inr show ?thesis by (simp add: while_item_raise)
      next
        case cs': (Inr cs')
        show ?thesis
        proof (cases "falsy (nextPageToken r)")
          case True
          with \<open>length cs < 100\<close> Inr cs' show ?thesis by (simp add: while_last_page)
        next
          case False
          with assms Inr have "items r \<noteq> []" by blast
          with comentarios_for_length [OF cs'] have "length cs < length cs'" by simp
          with True have "100 - length cs' < 100 - length cs" by simp
          from less [OF this] obtain res where
            "comentarios_while api vid cs' (nextPageToken r) (Suc w) = Some res" by blast
          with True Inr cs' False show ?thesis by (simp add: while_next_page)
        qed
      qed
    qed
  qed
qed

text \<open>
  The loop returns when its run reaches a state whose iteration ends the loop, by
  induction on the number of iterations before that state.
\<close>

lemma run_returns:
  "estado api vid k cs tok w = Some (cs', tok') \<Longrightarrow> sale api vid cs' tok' (w + k)
     \<Longrightarrow> \<exists>res. comentarios_while api vid cs tok w = Some res"
proof (induction k arbitrary: cs tok w)
  case 0
  then have "sale api vid cs tok w" by simp
  then show ?case
    by (subst comentarios_while.simps) (auto simp: sale_def split: sum.splits if_splits)
next
  case (Suc k)
  from Suc.prems(1) obtain r cs1 where
    l: "length cs < 100"
    and q: "commentThreads_list api w ''snippet'' vid 100 ''plainText'' tok = Inr r"
    and f: "comentarios_for cs (items r) = Inr cs1"
    and t: "\<not> falsy (nextPageToken r)"
    and e: "estado api vid k cs1 (nextPageToken r) (Suc w) = Some (cs', tok')"
    by (auto split: if_splits sum.splits)
  from Suc.prems(2) have "sale api vid cs' tok' (Suc w + k)" by simp
  from Suc.IH [OF e this] obtain res where
    "comentarios_while api vid cs1 (nextPageToken r) (Suc w) = Some res" by blast
  with l q f t show ?case by (simp add: while_next_page)
qed

text \<open>
  Conversely, when the loop returns, its run has reached such a state: by the
  induction rule of the loop as a partial function.
\<close>

lemma returns_run:
  assumes "comentarios_while api vid cs tok w = Some res"
  shows "\<exists>k cs' tok'. estado api vid k cs tok w = Some (cs', tok')
                       \<and> sale api vid cs' tok' (w + k)"
proof (rule comentarios_while.raw_induct [OF _ assms])
  fix loop :: "googleapiclient \<Rightarrow> string \<Rightarrow> string list \<Rightarrow> string option \<Rightarrow> world
                 \<Rightarrow> ((exn + string list) \<times> world) option"
    and api vid cs tok w res
  assume IH: "\<And>api vid cs tok w res. loop api vid cs tok w = Some res \<Longrightarrow>
                \<exists>k cs' tok'. estado api vid k cs tok w = Some (cs', tok')
                              \<and> sale api vid cs' tok' (w + k)"
  assume body: "(if length cs < 100 then
        (case commentThreads_list api w ''snippet'' vid 100 ''plainText'' tok of
           Inl e \<Rightarrow> Some (Inl e, Suc w)
         | Inr response \<Rightarrow>
             (case comentarios_for cs (items response) of
                Inl e \<Rightarrow> Some (Inl e, Suc w)
              | Inr comentarios' \<Rightarrow>
                  if falsy (nextPageToken response) then Some (Inr comentarios', Suc w)
                  else loop api vid comentarios' (nextPageToken response) (Suc w)))
      else Some (Inr cs, w)) = Some res"
  show "\<exists>k cs' tok'. estado api vid k cs tok w = Some (cs', tok')
                      \<and> sale api vid cs' tok' (w + k)"
  proof (cases "sale api vid cs tok w")
    case True
    then have "estado api vid 0 cs tok w = Some (cs, tok) \<and> sale api vid cs tok (w + 0)"
      by simp
    then show ?thesis by (intro exI)
  next
    case False
    then obtain r cs1 where
      l: "length cs < 100"
      and q: "commentThreads_list api w ''snippet'' vid 100 ''plainText'' tok = Inr r"
      and f: "comentarios_for cs (items r) = Inr cs1"
      and t: "\<not> falsy (nextPageToken r)"
      by (auto simp: sale_def split: if_splits sum.splits)
    with body have "loop api vid cs1 (nextPageToken r) (Suc w) = Some res" by simp
    from IH [OF this] obtain k cs' tok' where
      e: "estado api vid k cs1 (nextPageToken r) (Suc w) = Some (cs', tok')"
      and s: "sale api vid cs' tok' (Suc w + k)"
      by blast
    from l q f t e have "estado api vid (Suc k) cs tok w = Some (cs', tok')" by simp
    moreover from s have "sale api vid cs' tok' (w + Suc k)" by simp
    ultimately have "estado api vid (Suc k) cs tok w = Some (cs', tok')
                     \<and> sale api vid cs' tok' (w + Suc k)" by simp
    then show ?thesis by (intro exI)
  qed
qed

text \<open>
  On \<open>api_sin_fin\<close> the loop started with no comment never returns: every unfolding
  leads to the same state one call later.
\<close>

lemma while_forever:
  assumes "comentarios_while api vid cs tok w = Some y"
  shows "\<not> (api = api_sin_fin \<and> cs = [])"
proof (rule comentarios_while.raw_induct [OF _ assms])
  fix loop :: "googleapiclient \<Rightarrow> string \<Rightarrow> string list \<Rightarrow> string option \<Rightarrow> world
                 \<Rightarrow> ((exn + string list) \<times> world) option"
    and api vid cs tok w y
  assume IH: "\<And>api vid cs tok w y. loop api vid cs tok w = Some y \<Longrightarrow>
                \<not> (api = api_sin_fin \<and> cs = [])"
  assume body: "(if length cs < 100 then
        (case commentThreads_list api w ''snippet'' vid 100 ''plainText'' tok of
           Inl e \<Rightarrow> Some (Inl e, Suc w)
         | Inr response \<Rightarrow>
             (case comentarios_for cs (items response) of
                Inl e \<Rightarrow> Some (Inl e, Suc w)
              | Inr comentarios' \<Rightarrow>
                  if falsy (nextPageToken response) then Some (Inr comentarios', Suc w)
                  else loop api vid comentarios' (nextPageToken response) (Suc w)))
      else Some (Inr cs, w)) = Some y"
  show "\<not> (api = api_sin_fin \<and> cs = [])"
  proof
    assume a: "api = api_sin_fin \<and> cs = []"
    with body have "loop api vid [] (Some ''t'') (Suc w) = Some y"
      by (simp add: api_sin_fin_def api_guion_sel pagina_def falsy_def)
    from IH [OF this] a show False by simp
  qed
qed

text \<open>
  C9, as the claim states it, fails: when every page carries a next-page token and
  contributes no comment, the loop does not return, and neither does
  \<open>obtener_comentarios_youtube\<close>.
\<close>

theorem paging_loop_not_total:
  "comentarios_while api_sin_fin ''dQw4w9WgXcQ'' [] None 1 = None
   \<and> obtener_comentarios_youtube (Some ''key'') api_sin_fin ''dQw4w9WgXcQ'' 0 = None"
proof -
  have n: "comentarios_while api_sin_fin ''dQw4w9WgXcQ'' [] None (Suc 0) = None"
    using while_forever [of api_sin_fin "''dQw4w9WgXcQ''" "[]" None "Suc 0"]
    by (cases "comentarios_while api_sin_fin ''dQw4w9WgXcQ'' [] None (Suc 0)") auto
  then have "obtener_comentarios_youtube (Some ''key'') api_sin_fin ''dQw4w9WgXcQ'' 0 = None"
    by (simp add: obtener_comentarios_youtube_def api_sin_fin_def api_guion_sel)
  with n show ?thesis by simp
qed

text \<open>
  C9, amended. The loop terminates exactly when, along the requests it really makes
  (the first with the token it starts with, each later one with the token of the page
  before), it comes to an iteration that finds 100 comments accumulated, or whose
  request raises, or whose page has an item that raises, or whose page carries no
  next-page token. So it terminates for every finite sequence of pages, also when
  pages contribute zero comments, and for every sequence that accumulates 100
  comments, also through pages without comments; in particular when each page that
  carries a token contributes at least one comment. It stops as soon as 100 comments
  have been accumulated (without a further request) or a page carries no next-page
  token (with the comments of that page added).
\<close>

theorem paging_loop_terminates:
  "((\<exists>res. comentarios_while api vid cs tok w = Some res)
      \<longleftrightarrow> (\<exists>k cs' tok'. estado api vid k cs tok w = Some (cs', tok')
                          \<and> sale api vid cs' tok' (w + k)))
   \<and> (\<not> length cs < 100 \<longrightarrow> comentarios_while api vid cs tok w = Some (Inr cs, w))
   \<and> (length cs < 100
       \<and> commentThreads_list api w ''snippet'' vid 100 ''plainText'' tok = Inr r
       \<and> comentarios_for cs (items r) = Inr cs1 \<and> falsy (nextPageToken r)
      \<longrightarrow> comentarios_while api vid cs tok w = Some (Inr cs1, Suc w))
   \<and> ((\<forall>w' tok' r. commentThreads_list api w' ''snippet'' vid 100 ''plainText'' tok' = Inr r
             \<and> \<not> falsy (nextPageToken r) \<longrightarrow> items r \<noteq> [])
      \<longrightarrow> (\<exists>res. comentarios_while api vid cs tok w = Some res))"
proof (intro conjI impI iffI)
  assume "\<exists>res. comentarios_while api vid cs tok w = Some res"
  then obtain res where "comentarios_while api vid cs tok w = Some res" ..
  then show "\<exists>k cs' tok'. estado api vid k cs tok w = Some (cs', tok')
                          \<and> sale api vid cs' tok' (w + k)"
    by (rule returns_run)
next
  assume "\<exists>k cs' tok'. estado api vid k cs tok w = Some (cs', tok')
                       \<and> sale api vid cs' tok' (w + k)"
  then obtain k cs' tok' where
    "estado api vid k cs tok w = Some (cs', tok')" "sale api vid cs' tok' (w + k)"
    by blast
  then show "\<exists>res. comentarios_while api vid cs tok w = Some res"
    by (rule run_returns)
next
  assume "\<not> length cs < 100"
  then show "comentarios_while api vid cs tok w = Some (Inr cs, w)"
    by (rule while_done)
next
  assume "length cs < 100
       \<and> commentThreads_list api w ''snippet'' vid 100 ''plainText'' tok = Inr r
       \<and> comentarios_for cs (items r) = Inr cs1 \<and> falsy (nextPageToken r)"
  then show "comentarios_while api vid cs tok w = Some (Inr cs1, Suc w)"
    by (simp add: while_last_page)
next
  assume "\<forall>w' tok' r. commentThreads_list api w' ''snippet'' vid 100 ''plainText'' tok' = Inr r
             \<and> \<not> falsy (nextPageToken r) \<longrightarrow> items r \<noteq> []"
  then show "\<exists>res. comentarios_while api vid cs tok w = Some res"
    by (rule while_terminates_progress)
qed

text \<open>
  A client that answers by the token: an empty page with a token, then the last
  page; the loop returns after the second request. Pages of 50 and of no comments in
  turn, all with a token: the run has 100 comments before its fifth request. A list
  of 100 comments ends the loop at once. And pages of one comment each, all with a
  token, let the loop return.
\<close>

theorem paging_loop_terminates_witness:
  "estado api_por_token ''dQw4w9WgXcQ'' (Suc 0) [] None 1 = Some ([], Some ''t'')
   \<and> sale api_por_token ''dQw4w9WgXcQ'' [] (Some ''t'') (1 + Suc 0)
   \<and> (\<exists>res. comentarios_while api_por_token ''dQw4w9WgXcQ'' [] None 1 = Some res)
   \<and> comentarios_while api_por_token ''dQw4w9WgXcQ'' [] None 1 = Some (Inr [''fin''], 3)
   \<and> estado api_alterna ''dQw4w9WgXcQ'' (Suc (Suc (Suc (Suc 0)))) [] None 1
       = Some (replicate 50 ''c'' @ replicate 50 ''c'', Some ''t'')
   \<and> sale api_alterna ''dQw4w9WgXcQ'' (replicate 50 ''c'' @ replicate 50 ''c'') (Some ''t'')
        (1 + Suc (Suc (Suc (Suc 0))))
   \<and> (\<exists>res. comentarios_while api_alterna ''dQw4w9WgXcQ'' [] None 1 = Some res)
   \<and> \<not> length (replicate 100 ''c'') < 100
   \<and> comentarios_while api_por_token ''dQw4w9WgXcQ'' (replicate 100 ''c'') None 1
       = Some (Inr (replicate 100 ''c''), 1)
   \<and> commentThreads_list api_por_token 2 ''snippet'' ''dQw4w9WgXcQ'' 100 ''plainText''
        (Some ''t'') = Inr \<lparr>items = [Inr ''fin''], nextPageToken = None\<rparr>
   \<and> comentarios_while api_por_token ''dQw4w9WgXcQ'' [] (Some ''t'') 2
       = Some (Inr [''fin''], Suc 2)
   \<and> (\<exists>res. comentarios_while api_llena ''dQw4w9WgXcQ'' [] None 1 = Some res)"
proof -
  have e1: "estado api_por_token ''dQw4w9WgXcQ'' (Suc 0) [] None 1 = Some ([], Some ''t'')"
    by (simp add: api_por_token_def pagina_def falsy_def)
  have s1: "sale api_por_token ''dQw4w9WgXcQ'' [] (Some ''t'') (1 + Suc 0)"
    by (simp add: sale_def api_por_token_def pagina_def falsy_def)
  have t1: "\<exists>res. comentarios_while api_por_token ''dQw4w9WgXcQ'' [] None 1 = Some res"
    by (rule paging_loop_terminates [of api_por_token "''dQw4w9WgXcQ''" "[]" None 1,
          THEN conjunct1, THEN iffD2])
       (intro exI conjI, rule e1, rule s1)
  have p: "commentThreads_list api_por_token 2 ''snippet'' ''dQw4w9WgXcQ'' 100 ''plainText''
             (Some ''t'') = Inr \<lparr>items = [Inr ''fin''], nextPageToken = None\<rparr>"
    by (simp add: api_por_token_def pagina_def)
  have l: "comentarios_while api_por_token ''dQw4w9WgXcQ'' [] (Some ''t'') 2
             = Some (Inr [''fin''], Suc 2)"
    by (rule paging_loop_terminates [of api_por_token "''dQw4w9WgXcQ''" "[]" "Some ''t''" 2
          "\<lparr>items = [Inr ''fin''], nextPageToken = None\<rparr>" "[''fin'']",
          THEN conjunct2, THEN conjunct2, THEN conjunct1, THEN mp])
       (simp add: p falsy_def)
  have "comentarios_while api_por_token ''dQw4w9WgXcQ'' [] None (Suc 0)
          = comentarios_while api_por_token ''dQw4w9WgXcQ'' [] (Some ''t'') (Suc (Suc 0))"
    using while_next_page [where api = api_por_token and vid = "''dQw4w9WgXcQ''" and cs = "[]"
        and tok = None and w = "Suc 0" and cs' = "[]"
        and r = "\<lparr>items = [], nextPageToken = Some ''t''\<rparr>"]
    by (simp add: api_por_token_def pagina_def falsy_def)
  with l have v: "comentarios_while api_por_token ''dQw4w9WgXcQ'' [] None 1
                    = Some (Inr [''fin''], 3)"
    by (simp add: numeral_2_eq_2)
  have e2: "estado api_alterna ''dQw4w9WgXcQ'' (Suc (Suc (Suc (Suc 0)))) [] None 1
       = Some (replicate 50 ''c'' @ replicate 50 ''c'', Some ''t'')"
    by (simp add: api_alterna_def api_guion_sel pagina_def falsy_def comentarios_for_replicate)
  have s2: "sale api_alterna ''dQw4w9WgXcQ'' (replicate 50 ''c'' @ replicate 50 ''c'')
              (Some ''t'') (1 + Suc (Suc (Suc (Suc 0))))"
    by (simp add: sale_def)
  have t2: "\<exists>res. comentarios_while api_alterna ''dQw4w9WgXcQ'' [] None 1 = Some res"
    by (rule paging_loop_terminates [of api_alterna "''dQw4w9WgXcQ''" "[]" None 1,
          THEN conjunct1, THEN iffD2])
       (intro exI conjI, rule e2, rule s2)
  have n: "\<not> length (replicate 100 ''c'') < 100" by simp
  have d: "comentarios_while api_por_token ''dQw4w9WgXcQ'' (replicate 100 ''c'') None 1
       = Some (Inr (replicate 100 ''c''), 1)"
    by (rule paging_loop_terminates [of api_por_token "''dQw4w9WgXcQ''" "replicate 100 ''c''"
          None 1, THEN conjunct2, THEN conjunct1, THEN mp])
       (rule n)
  have g: "\<forall>w' tok r. commentThreads_list api_llena w' ''snippet'' ''dQw4w9WgXcQ'' 100
                     ''plainText'' tok = Inr r
             \<and> \<not> falsy (nextPageToken r) \<longrightarrow> items r \<noteq> []"
    by (auto simp: api_llena_def api_guion_sel pagina_def)
  have f: "\<exists>res. comentarios_while api_llena ''dQw4w9WgXcQ'' [] None 1 = Some res"
    by (rule paging_loop_terminates [of api_llena "''dQw4w9WgXcQ''" "[]" None 1,
          THEN conjunct2, THEN conjunct2, THEN conjunct2, THEN mp])
       (rule g)
  from e1 s1 t1 v e2 s2 t2 n d p l f show ?thesis by (intro conjI)
qed


end
